theory Spec2Isabelle
  imports Main "HOL-Library.Word"
begin

unbundle bit_operations_syntax

section \<open>Errors\<close>

text \<open>
  A Go \<open>error\<close> value. \<open>Wrapped msg e\<close> is \<open>fmt.Errorf(msg + ": %w", e)\<close>;
  \<open>UnmarshalTypeError v t\<close> is the error of \<open>encoding/json\<close> for a JSON value of
  kind \<open>v\<close> that does not fit the Go type \<open>t\<close>; \<open>External s\<close> is an error that comes
  from outside the library (transport, URL parser, time zone database, gzip, XML encoder).
\<close>

datatype error =
    Wrapped string error
  | UnmarshalTypeError string string
  | External string

section \<open>Data model (stalkerlib.go, lines 17-100)\<close>

record ServerConfig =
  SupportsGzip :: bool
  RequiresCreateLink :: bool

record StalkerClient =
  PortalURL :: string
  MAC :: string
  Timezone :: string
  Token :: string
  Config :: ServerConfig

text \<open>The anonymous \<open>Js\<close> structs of the four response envelopes are flattened.\<close>

record HandshakeResponse =
  js_token :: string

record Channel =
  ch_ID :: string
  ch_Name :: string
  ch_Cmd :: string
  ch_Logo :: string

record CreateLinkResponse =
  js_cmd :: string

record EPGProgram =
  ChannelID :: string
  Name :: string
  Start :: "64 word"
  Stop :: "64 word"
  Desc :: string
  Category :: string

record XMLTVChannel =
  x_ID :: string
  x_DisplayName :: string

record XMLTVProgram =
  x_Start :: string
  x_Stop :: string
  x_Channel :: string
  x_Title :: string
  x_Desc :: string
  x_Category :: string

record XMLTV =
  Channels :: "XMLTVChannel list"
  Programs :: "XMLTVProgram list"

definition NewStalkerClient :: "string \<Rightarrow> string \<Rightarrow> string \<Rightarrow> StalkerClient" where
  "NewStalkerClient portalURL mac timezone =
     \<lparr>PortalURL = portalURL, MAC = mac, Timezone = timezone, Token = '''',
      Config = \<lparr>SupportsGzip = False, RequiresCreateLink = False\<rparr>\<rparr>"

section \<open>The parts of package \<open>time\<close> that the library calls\<close>

text \<open>
  A \<open>*time.Location\<close> is seen by the library only through the offset, in seconds east
  of UTC, that it gives for an instant (a count of seconds since the Unix epoch).
\<close>

record Location =
  loc_name :: string
  zone_offset :: "int \<Rightarrow> int"

text \<open>
  \<open>time.Time\<close>: the \<open>wall\<close> word (flag bit 63, here always clear, and the nanoseconds
  in the low 30 bits), \<open>ext\<close> (an \<open>int64\<close>: seconds since 1 January of year 1) and the
  location. \<open>int64\<close> arithmetic wraps modulo \<open>2 ^ 64\<close>.
\<close>

record Time =
  wall :: "64 word"
  ext :: "64 word"
  loc :: Location

definition unixToInternal :: "64 word" where
  "unixToInternal = (1969 * 365 + 1969 div 4 - 1969 div 100 + 1969 div 400) * 86400"

definition internalToUnix :: "64 word" where
  "internalToUnix = - unixToInternal"

definition wallToInternal :: "64 word" where
  "wallToInternal = (1884 * 365 + 1884 div 4 - 1884 div 100 + 1884 div 400) * 86400"

definition hasMonotonic :: "64 word" where
  "hasMonotonic = push_bit 63 1"

definition Local :: Location where
  "Local = \<lparr>loc_name = ''Local'', zone_offset = (\<lambda>_. 0)\<rparr>"

text \<open>\<open>time.Unix(sec, nsec)\<close> for \<open>0 \<le> nsec < 1e9\<close> (the library passes \<open>nsec = 0\<close>).\<close>

definition time_Unix :: "64 word \<Rightarrow> 64 word \<Rightarrow> Time" where
  "time_Unix sec nsec = \<lparr>wall = nsec, ext = sec + unixToInternal, loc = Local\<rparr>"

text \<open>\<open>t.In(loc)\<close>: strips a monotonic reading (there is none here) and sets the location.\<close>

definition stripMono :: "Time \<Rightarrow> Time" where
  "stripMono t =
     (if wall t AND hasMonotonic \<noteq> 0
      then t\<lparr>ext := 0, wall := wall t AND (push_bit 30 1 - 1)\<rparr>
      else t)"

definition time_In :: "Time \<Rightarrow> Location \<Rightarrow> Time" where
  "time_In t l = (stripMono t)\<lparr>loc := l\<rparr>"

definition time_sec :: "Time \<Rightarrow> 64 word" where
  "time_sec t =
     (if wall t AND hasMonotonic \<noteq> 0
      then wallToInternal + drop_bit 31 (push_bit 1 (wall t))
      else ext t)"

text \<open>\<open>t.Unix()\<close>.\<close>

definition unixSec :: "Time \<Rightarrow> 64 word" where
  "unixSec t = time_sec t + internalToUnix"

subsection \<open>Formatting with the layout \<open>"20060102150405 -0700"\<close>\<close>

text \<open>Go's integer division truncates towards zero.\<close>

definition tdiv :: "int \<Rightarrow> int \<Rightarrow> int" where
  "tdiv a b = sgn a * sgn b * (\<bar>a\<bar> div \<bar>b\<bar>)"

definition tmod :: "int \<Rightarrow> int \<Rightarrow> int" where
  "tmod a b = a - b * tdiv a b"

definition digit_char :: "nat \<Rightarrow> char" where
  "digit_char d = char_of (48 + d)"

fun decimal :: "nat \<Rightarrow> string" where
  "decimal n = (if n < 10 then [digit_char n] else decimal (n div 10) @ [digit_char (n mod 10)])"

declare decimal.simps [simp del]

text \<open>\<open>appendInt(b, x, width)\<close>: a minus sign for a negative \<open>x\<close>, then its digits,
  padded with zeros on the left to \<open>width\<close>.\<close>

definition appendInt :: "int \<Rightarrow> nat \<Rightarrow> string" where
  "appendInt x width =
     (let ds = decimal (nat \<bar>x\<bar>)
      in (if x < 0 then ''-'' else '''') @ replicate (width - length ds) (CHR ''0'') @ ds)"

text \<open>
  The civil date of a day number (days since 1 January 1970) in the proleptic Gregorian
  calendar, which is what \<open>Time.Date\<close> computes. Whole 400-year eras of 146097 days
  starting on 1 March; \<open>div\<close> and \<open>mod\<close> on \<open>int\<close> round down.
\<close>

definition civil_from_days :: "int \<Rightarrow> int \<times> int \<times> int" where
  "civil_from_days days =
     (let z = days + 719468;
          era = z div 146097;
          doe = z mod 146097;
          yoe = (doe - doe div 1460 + doe div 36524 - doe div 146096) div 365;
          doy = doe - (365 * yoe + yoe div 4 - yoe div 100);
          mp = (5 * doy + 2) div 153;
          d = doy - (153 * mp + 2) div 5 + 1;
          m = (if mp < 10 then mp + 3 else mp - 9);
          y = yoe + era * 400 + (if m \<le> 2 then 1 else 0)
      in (y, m, d))"

text \<open>
  The numeric zone \<open>-0700\<close>: the offset in whole minutes (truncated), its sign, then
  hours and minutes, two digits each.
\<close>

definition format_numTZ :: "int \<Rightarrow> string" where
  "format_numTZ offset =
     (let zone = tdiv offset 60;
          sign = (if zone < 0 then ''-'' else ''+'');
          zone' = (if zone < 0 then - zone else zone)
      in sign @ appendInt (tdiv zone' 60) 2 @ appendInt (tmod zone' 60) 2)"

text \<open>
  \<open>t.Format("20060102150405 -0700")\<close>. The instant is looked up in the location, the
  offset is added, and the date and clock of the shifted second count are printed.
  The second count is taken as a mathematical integer (Go's own unsigned "absolute"
  second count agrees with it for every year a calendar can name).
\<close>

definition Format_xmltv :: "Time \<Rightarrow> string" where
  "Format_xmltv t =
     (let sec = sint (unixSec t);
          offset = zone_offset (loc t) sec;
          lsec = sec + offset;
          (year, month, day) = civil_from_days (lsec div 86400);
          clock = lsec mod 86400
      in appendInt year 4 @ appendInt month 2 @ appendInt day 2
         @ appendInt (clock div 3600) 2 @ appendInt (clock mod 3600 div 60) 2
         @ appendInt (clock mod 60) 2 @ '' '' @ format_numTZ offset)"

section \<open>The parts of \<open>encoding/json\<close> that the library calls\<close>

text \<open>
  A JSON value as the scanner of \<open>encoding/json\<close> delivers it: a number keeps its
  literal text, an object keeps its members in document order, duplicates included.
\<close>

datatype json =
    JNull
  | JBool bool
  | JNumber string
  | JString string
  | JArray "json list"
  | JObject "(string \<times> json) list"

definition json_kind :: "json \<Rightarrow> string" where
  "json_kind j =
     (case j of JNull \<Rightarrow> ''null'' | JBool _ \<Rightarrow> ''bool'' | JNumber _ \<Rightarrow> ''number''
      | JString _ \<Rightarrow> ''string'' | JArray _ \<Rightarrow> ''array'' | JObject _ \<Rightarrow> ''object'')"

text \<open>
  A member name selects the struct field whose JSON name it equals, or else the field
  whose name it equals after case folding. Folding maps ASCII letters to upper case; the
  only other code points that fold to an ASCII letter are U+017F (to \<open>S\<close>, bytes C5 BF)
  and U+212A (to \<open>K\<close>, bytes E2 84 AA). Strings are byte sequences.
\<close>

definition to_upper :: "char \<Rightarrow> char" where
  "to_upper c = (let n = (of_char c :: nat) in if 97 \<le> n \<and> n \<le> 122 then char_of (n - 32) else c)"

fun foldName :: "string \<Rightarrow> string" where
  "foldName [] = []"
| "foldName (c # cs) =
     (if of_char c = (0xC5 :: nat) \<and> map of_char (take 1 cs) = [0xBF :: nat]
      then CHR ''S'' # foldName (drop 1 cs)
      else if of_char c = (0xE2 :: nat) \<and> map of_char (take 2 cs) = [0x84, 0xAA :: nat]
      then CHR ''K'' # foldName (drop 2 cs)
      else to_upper c # foldName cs)"

definition is_field :: "string \<Rightarrow> string \<Rightarrow> bool" where
  "is_field key name = (key = name \<or> foldName key = foldName name)"

text \<open>
  Decoding is into an existing value. A type mismatch is reported as the error of the
  whole decode (the first one in document order); the library discards the value then.
\<close>

definition dec_string :: "json \<Rightarrow> string \<Rightarrow> error + string" where
  "dec_string j old =
     (case j of JString s \<Rightarrow> Inr s | JNull \<Rightarrow> Inr old
      | _ \<Rightarrow> Inl (UnmarshalTypeError (json_kind j) ''string''))"

definition is_digit :: "char \<Rightarrow> bool" where
  "is_digit c = (let n = (of_char c :: nat) in 48 \<le> n \<and> n \<le> 57)"

definition digits_val :: "string \<Rightarrow> int" where
  "digits_val ds = foldl (\<lambda>a c. 10 * a + (of_char c - 48)) 0 ds"

text \<open>\<open>strconv.ParseInt(s, 10, 64)\<close>: an optional sign, then decimal digits, in range.\<close>

definition ParseInt64 :: "string \<Rightarrow> 64 word option" where
  "ParseInt64 s =
     (let neg = (take 1 s = ''-'');
          ds = (if take 1 s = ''-'' \<or> take 1 s = ''+'' then drop 1 s else s)
      in if ds = [] \<or> \<not> list_all is_digit ds then None
         else let v = digits_val ds; n = (if neg then - v else v)
              in if - (2 ^ 63) \<le> n \<and> n < 2 ^ 63 then Some (word_of_int n) else None)"

definition dec_int64 :: "json \<Rightarrow> 64 word \<Rightarrow> error + 64 word" where
  "dec_int64 j old =
     (case j of
        JNumber lit \<Rightarrow>
          (case ParseInt64 lit of Some n \<Rightarrow> Inr n
           | None \<Rightarrow> Inl (UnmarshalTypeError (''number '' @ lit) ''int64''))
      | JNull \<Rightarrow> Inr old
      | _ \<Rightarrow> Inl (UnmarshalTypeError (json_kind j) ''int64''))"

text \<open>The members of an object, in order, each decoded into the value built so far.\<close>

fun dec_members :: "(string \<Rightarrow> json \<Rightarrow> 'a \<Rightarrow> error + 'a) \<Rightarrow> (string \<times> json) list \<Rightarrow> 'a \<Rightarrow> error + 'a" where
  "dec_members f [] a = Inr a"
| "dec_members f ((k, v) # kvs) a =
     (case f k v a of Inl e \<Rightarrow> Inl e | Inr a' \<Rightarrow> dec_members f kvs a')"

definition dec_struct :: "string \<Rightarrow> (string \<Rightarrow> json \<Rightarrow> 'a \<Rightarrow> error + 'a) \<Rightarrow> json \<Rightarrow> 'a \<Rightarrow> error + 'a" where
  "dec_struct ty f j a =
     (case j of JObject kvs \<Rightarrow> dec_members f kvs a | JNull \<Rightarrow> Inr a
      | _ \<Rightarrow> Inl (UnmarshalTypeError (json_kind j) ty))"

text \<open>
  A Go slice while it is decoded into: its elements and the rest of its backing array.
  Element \<open>i\<close> of a JSON array is decoded into slot \<open>i\<close> of the backing array as it is
  (a fresh zero value beyond the capacity); the slice is then cut to the number of
  elements read. An empty array gives a new empty slice, \<open>null\<close> the nil slice.
\<close>

record 'a slice =
  elems :: "'a list"
  spare :: "'a list"

definition nil_slice :: "'a slice" where
  "nil_slice = \<lparr>elems = [], spare = []\<rparr>"

fun dec_elems :: "(json \<Rightarrow> 'a \<Rightarrow> error + 'a) \<Rightarrow> 'a \<Rightarrow> json list \<Rightarrow> 'a list \<Rightarrow> error + 'a list" where
  "dec_elems d z [] backing = Inr []"
| "dec_elems d z (j # js) backing =
     (case d j (case backing of [] \<Rightarrow> z | b # _ \<Rightarrow> b) of
        Inl e \<Rightarrow> Inl e
      | Inr x \<Rightarrow>
          (case dec_elems d z js (tl backing) of Inl e \<Rightarrow> Inl e | Inr xs \<Rightarrow> Inr (x # xs)))"

definition dec_slice :: "string \<Rightarrow> (json \<Rightarrow> 'a \<Rightarrow> error + 'a) \<Rightarrow> 'a \<Rightarrow> json \<Rightarrow> 'a slice \<Rightarrow> error + 'a slice" where
  "dec_slice ty d z j old =
     (case j of
        JArray js \<Rightarrow>
          (case dec_elems d z js (elems old @ spare old) of
             Inl e \<Rightarrow> Inl e
           | Inr xs \<Rightarrow>
               Inr (if js = [] then nil_slice
                    else \<lparr>elems = xs, spare = drop (length js) (elems old @ spare old)\<rparr>))
      | JNull \<Rightarrow> Inr nil_slice
      | _ \<Rightarrow> Inl (UnmarshalTypeError (json_kind j) ty))"

text \<open>Storing a decoded field: \<open>set_field upd r\<close> keeps an error and applies \<open>upd\<close> otherwise.\<close>

definition set_field :: "('v \<Rightarrow> 'a) \<Rightarrow> error + 'v \<Rightarrow> error + 'a" where
  "set_field upd r = (case r of Inl e \<Rightarrow> Inl e | Inr v \<Rightarrow> Inr (upd v))"

subsection \<open>The four response envelopes\<close>

definition zero_HandshakeResponse :: HandshakeResponse where
  "zero_HandshakeResponse = \<lparr>js_token = ''''\<rparr>"

definition dec_HandshakeJs :: "string \<Rightarrow> json \<Rightarrow> HandshakeResponse \<Rightarrow> error + HandshakeResponse" where
  "dec_HandshakeJs k v r =
     (if is_field k ''token'' then set_field (\<lambda>s. r\<lparr>js_token := s\<rparr>) (dec_string v (js_token r))
      else Inr r)"

definition dec_HandshakeResponse :: "json \<Rightarrow> HandshakeResponse \<Rightarrow> error + HandshakeResponse" where
  "dec_HandshakeResponse =
     dec_struct ''HandshakeResponse''
       (\<lambda>k v r. if is_field k ''js'' then dec_struct ''HandshakeResponse.Js'' dec_HandshakeJs v r
                else Inr r)"

definition zero_CreateLinkResponse :: CreateLinkResponse where
  "zero_CreateLinkResponse = \<lparr>js_cmd = ''''\<rparr>"

definition dec_CreateLinkJs :: "string \<Rightarrow> json \<Rightarrow> CreateLinkResponse \<Rightarrow> error + CreateLinkResponse" where
  "dec_CreateLinkJs k v r =
     (if is_field k ''cmd'' then set_field (\<lambda>s. r\<lparr>js_cmd := s\<rparr>) (dec_string v (js_cmd r))
      else Inr r)"

definition dec_CreateLinkResponse :: "json \<Rightarrow> CreateLinkResponse \<Rightarrow> error + CreateLinkResponse" where
  "dec_CreateLinkResponse =
     dec_struct ''CreateLinkResponse''
       (\<lambda>k v r. if is_field k ''js'' then dec_struct ''CreateLinkResponse.Js'' dec_CreateLinkJs v r
                else Inr r)"

definition zero_Channel :: Channel where
  "zero_Channel = \<lparr>ch_ID = '''', ch_Name = '''', ch_Cmd = '''', ch_Logo = ''''\<rparr>"

definition dec_Channel_field :: "string \<Rightarrow> json \<Rightarrow> Channel \<Rightarrow> error + Channel" where
  "dec_Channel_field k v c =
     (if is_field k ''id'' then set_field (\<lambda>s. c\<lparr>ch_ID := s\<rparr>) (dec_string v (ch_ID c))
      else if is_field k ''name'' then set_field (\<lambda>s. c\<lparr>ch_Name := s\<rparr>) (dec_string v (ch_Name c))
      else if is_field k ''cmd'' then set_field (\<lambda>s. c\<lparr>ch_Cmd := s\<rparr>) (dec_string v (ch_Cmd c))
      else if is_field k ''logo'' then set_field (\<lambda>s. c\<lparr>ch_Logo := s\<rparr>) (dec_string v (ch_Logo c))
      else Inr c)"

definition dec_Channel :: "json \<Rightarrow> Channel \<Rightarrow> error + Channel" where
  "dec_Channel = dec_struct ''Channel'' dec_Channel_field"

record ChannelListResponse =
  js_channels :: "Channel slice"

definition zero_ChannelListResponse :: ChannelListResponse where
  "zero_ChannelListResponse = \<lparr>js_channels = nil_slice\<rparr>"

definition dec_ChannelListJs :: "string \<Rightarrow> json \<Rightarrow> ChannelListResponse \<Rightarrow> error + ChannelListResponse" where
  "dec_ChannelListJs k v r =
     (if is_field k ''channels''
      then set_field (\<lambda>s. r\<lparr>js_channels := s\<rparr>)
             (dec_slice ''[]Channel'' dec_Channel zero_Channel v (js_channels r))
      else Inr r)"

definition dec_ChannelListResponse :: "json \<Rightarrow> ChannelListResponse \<Rightarrow> error + ChannelListResponse" where
  "dec_ChannelListResponse =
     dec_struct ''ChannelListResponse''
       (\<lambda>k v r. if is_field k ''js'' then dec_struct ''ChannelListResponse.Js'' dec_ChannelListJs v r
                else Inr r)"

definition zero_EPGProgram :: EPGProgram where
  "zero_EPGProgram =
     \<lparr>ChannelID = '''', Name = '''', Start = 0, Stop = 0, Desc = '''', Category = ''''\<rparr>"

definition dec_EPGProgram_field :: "string \<Rightarrow> json \<Rightarrow> EPGProgram \<Rightarrow> error + EPGProgram" where
  "dec_EPGProgram_field k v p =
     (if is_field k ''ch_id'' then set_field (\<lambda>s. p\<lparr>ChannelID := s\<rparr>) (dec_string v (ChannelID p))
      else if is_field k ''name'' then set_field (\<lambda>s. p\<lparr>Name := s\<rparr>) (dec_string v (Name p))
      else if is_field k ''start_timestamp''
        then set_field (\<lambda>n. p\<lparr>Start := n\<rparr>) (dec_int64 v (Start p))
      else if is_field k ''stop_timestamp''
        then set_field (\<lambda>n. p\<lparr>Stop := n\<rparr>) (dec_int64 v (Stop p))
      else if is_field k ''descr'' then set_field (\<lambda>s. p\<lparr>Desc := s\<rparr>) (dec_string v (Desc p))
      else if is_field k ''category'' then set_field (\<lambda>s. p\<lparr>Category := s\<rparr>) (dec_string v (Category p))
      else Inr p)"

definition dec_EPGProgram :: "json \<Rightarrow> EPGProgram \<Rightarrow> error + EPGProgram" where
  "dec_EPGProgram = dec_struct ''EPGProgram'' dec_EPGProgram_field"

record EPGResponse =
  js_programs :: "EPGProgram slice"

definition zero_EPGResponse :: EPGResponse where
  "zero_EPGResponse = \<lparr>js_programs = nil_slice\<rparr>"

definition dec_EPGJs :: "string \<Rightarrow> json \<Rightarrow> EPGResponse \<Rightarrow> error + EPGResponse" where
  "dec_EPGJs k v r =
     (if is_field k ''programs''
      then set_field (\<lambda>s. r\<lparr>js_programs := s\<rparr>)
             (dec_slice ''[]EPGProgram'' dec_EPGProgram zero_EPGProgram v (js_programs r))
      else Inr r)"

definition dec_EPGResponse :: "json \<Rightarrow> EPGResponse \<Rightarrow> error + EPGResponse" where
  "dec_EPGResponse =
     dec_struct ''EPGResponse''
       (\<lambda>k v r. if is_field k ''js'' then dec_struct ''EPGResponse.Js'' dec_EPGJs v r
                else Inr r)"

text \<open>
  \<open>json.NewDecoder(r).Decode(&v)\<close>: reading the first JSON value from \<open>r\<close> either fails
  (read error, end of input, syntax error) or gives a value, which is decoded into \<open>v\<close>.
\<close>

definition json_Decode :: "(json \<Rightarrow> 'a \<Rightarrow> error + 'a) \<Rightarrow> error + json \<Rightarrow> 'a \<Rightarrow> error + 'a" where
  "json_Decode dec r v = (case r of Inl e \<Rightarrow> Inl e | Inr j \<Rightarrow> dec j v)"

section \<open>The parts of \<open>net/url\<close> and \<open>net/http\<close> that the library calls\<close>

text \<open>A Go map with string keys, as an association list with distinct keys.\<close>

fun assoc_set :: "string \<Rightarrow> 'v \<Rightarrow> (string \<times> 'v) list \<Rightarrow> (string \<times> 'v) list" where
  "assoc_set k v [] = [(k, v)]"
| "assoc_set k v ((k', v') # kvs) =
     (if k' = k then (k, v) # kvs else (k', v') # assoc_set k v kvs)"

text \<open>\<open>url.QueryEscape\<close>: letters, digits and \<open>-_.~\<close> stay, a space becomes \<open>+\<close>,
  every other byte becomes \<open>%XX\<close> in upper-case hexadecimal.\<close>

definition hex_digit :: "nat \<Rightarrow> char" where
  "hex_digit d = (if d < 10 then char_of (48 + d) else char_of (55 + d))"

definition shouldEscape :: "char \<Rightarrow> bool" where
  "shouldEscape c =
     (let n = (of_char c :: nat)
      in \<not> ((97 \<le> n \<and> n \<le> 122) \<or> (65 \<le> n \<and> n \<le> 90) \<or> (48 \<le> n \<and> n \<le> 57)
            \<or> c \<in> set ''-_.~''))"

definition escape_byte :: "char \<Rightarrow> string" where
  "escape_byte c =
     (if c = CHR '' '' then ''+''
      else if shouldEscape c
      then [CHR ''%'', hex_digit (of_char c div 16), hex_digit (of_char c mod 16)]
      else [c])"

definition QueryEscape :: "string \<Rightarrow> string" where
  "QueryEscape s = concat (map escape_byte s)"

text \<open>\<open>url.Values.Encode\<close>: the keys in byte order, \<open>key=value\<close> joined by \<open>&\<close>.\<close>

fun str_less :: "string \<Rightarrow> string \<Rightarrow> bool" where
  "str_less [] [] = False"
| "str_less [] (y # ys) = True"
| "str_less (x # xs) [] = False"
| "str_less (x # xs) (y # ys) =
     ((of_char x :: nat) < of_char y \<or> (x = y \<and> str_less xs ys))"

fun insert_key :: "string \<times> string \<Rightarrow> (string \<times> string) list \<Rightarrow> (string \<times> string) list" where
  "insert_key kv [] = [kv]"
| "insert_key kv (kv' # kvs) =
     (if str_less (fst kv) (fst kv') then kv # kv' # kvs else kv' # insert_key kv kvs)"

definition sort_keys :: "(string \<times> string) list \<Rightarrow> (string \<times> string) list" where
  "sort_keys kvs = foldr insert_key kvs []"

fun join_amp :: "string list \<Rightarrow> string" where
  "join_amp [] = ''''"
| "join_amp [s] = s"
| "join_amp (s # t # ss) = s @ ''&'' @ join_amp (t # ss)"

definition Values_Encode :: "(string \<times> string) list \<Rightarrow> string" where
  "Values_Encode params =
     join_amp (map (\<lambda>(k, v). QueryEscape k @ ''='' @ QueryEscape v) (sort_keys params))"

record Request =
  Method :: string
  URL :: string
  ReqHeader :: "(string \<times> string) list"

definition Header_Set :: "string \<Rightarrow> string \<Rightarrow> Request \<Rightarrow> Request" where
  "Header_Set k v req = req\<lparr>ReqHeader := assoc_set k v (ReqHeader req)\<rparr>"

text \<open>
  A response body is a byte stream that the library hands to a decoder. It is described
  by what the two ways of reading it give: \<open>read_json\<close>, the first JSON value of the
  raw stream, and \<open>gzip_reader\<close>, the outcome of \<open>gzip.NewReader\<close> on the stream and,
  where that succeeds, the first JSON value of the inflated stream.
\<close>

record Body =
  read_json :: "error + json"
  gzip_reader :: "error + (error + json)"

text \<open>A response: the status code, the header (canonical key to values) and the body.\<close>

record Response =
  StatusCode :: int
  Header :: "string \<Rightarrow> string list"
  RespBody :: Body

definition Header_Get :: "(string \<Rightarrow> string list) \<Rightarrow> string \<Rightarrow> string" where
  "Header_Get h k = (case h k of [] \<Rightarrow> '''' | v # _ \<Rightarrow> v)"

section \<open>The environment of a client\<close>

text \<open>
  What the library reaches outside itself:
  \<^item> \<open>NewRequest_error url\<close>: the error of \<open>http.NewRequest("GET", url, nil)\<close>, if any
    (the URL does not parse);
  \<^item> \<open>Do req w\<close>: \<open>http.Client.Do\<close> against a server in state \<open>w\<close>, giving a transport
    error or a response, and the server's next state;
  \<^item> \<open>LoadLocation name\<close>: \<open>time.LoadLocation\<close>, the time zone database.
\<close>

record 'w env =
  NewRequest_error :: "string \<Rightarrow> error option"
  Do :: "Request \<Rightarrow> 'w \<Rightarrow> (error + Response) \<times> 'w"
  LoadLocation :: "string \<Rightarrow> error + Location"

text \<open>
  The state a call runs in: the client (a \<open>*StalkerClient\<close>, mutated in place), the
  server, and the requests sent so far, oldest first.
\<close>

record 'w state =
  client :: StalkerClient
  server :: 'w
  sent :: "Request list"

definition http_NewRequest :: "'w env \<Rightarrow> string \<Rightarrow> error + Request" where
  "http_NewRequest E url =
     (case NewRequest_error E url of
        Some err \<Rightarrow> Inl err
      | None \<Rightarrow> Inr \<lparr>Method = ''GET'', URL = url, ReqHeader = []\<rparr>)"

definition client_Do :: "'w env \<Rightarrow> Request \<Rightarrow> 'w state \<Rightarrow> (error + Response) \<times> 'w state" where
  "client_Do E req s =
     (let (r, w') = Do E req (server s)
      in (r, s\<lparr>server := w', sent := sent s @ [req]\<rparr>))"

section \<open>The client's operations (stalkerlib.go, lines 111-376)\<close>

definition apiURL :: "StalkerClient \<Rightarrow> string" where
  "apiURL c = PortalURL c @ ''/stalker_portal/server/load.php''"

definition cookie :: "StalkerClient \<Rightarrow> string" where
  "cookie c = ''mac='' @ MAC c @ ''; stb_lang=en; timezone='' @ Timezone c"

definition user_agent :: string where
  "user_agent = ''Mozilla/5.0 (QtEmbedded; U; Linux; C)''"

subsection \<open>Authenticate\<close>

definition handshake_params :: "(string \<times> string) list" where
  "handshake_params =
     [(''type'', ''stb''), (''action'', ''handshake''), (''JsHttpRequest'', ''1-xml'')]"

definition handshake_request :: "StalkerClient \<Rightarrow> Request" where
  "handshake_request c =
     Header_Set ''User-Agent'' user_agent
       (Header_Set ''Cookie'' (cookie c)
          \<lparr>Method = ''GET'', URL = apiURL c @ ''?'' @ Values_Encode handshake_params,
           ReqHeader = []\<rparr>)"

definition Authenticate :: "'w env \<Rightarrow> 'w state \<Rightarrow> error option \<times> 'w state" where
  "Authenticate E s =
     (let c = client s
      in case http_NewRequest E (apiURL c @ ''?'' @ Values_Encode handshake_params) of
           Inl err \<Rightarrow> (Some (Wrapped ''failed to create handshake request'' err), s)
         | Inr req0 \<Rightarrow>
             (let req = Header_Set ''User-Agent'' user_agent (Header_Set ''Cookie'' (cookie c) req0);
                  (r, s1) = client_Do E req s
              in case r of
                   Inl err \<Rightarrow> (Some (Wrapped ''handshake request failed'' err), s1)
                 | Inr resp \<Rightarrow>
                     (case json_Decode dec_HandshakeResponse (read_json (RespBody resp))
                             zero_HandshakeResponse of
                        Inl err \<Rightarrow> (Some (Wrapped ''failed to parse handshake response'' err), s1)
                      | Inr response \<Rightarrow>
                          (None, s1\<lparr>client := (client s1)\<lparr>Token := js_token response\<rparr>\<rparr>))))"

text \<open>The block "authenticate if no token" that opens \<open>GetChannels\<close>,
  \<open>GetPlaybackURL\<close> (when it needs \<open>create_link\<close>) and \<open>GetEPG\<close>.\<close>

definition ensure_token :: "'w env \<Rightarrow> 'w state \<Rightarrow> error option \<times> 'w state" where
  "ensure_token E s = (if Token (client s) = '''' then Authenticate E s else (None, s))"

subsection \<open>ProbeServer\<close>

text \<open>
  \<open>ProbeServer\<close> drops the error of \<open>http.NewRequest\<close> and sets a header on the request
  at once; where the request could not be built it is nil and the call panics.
\<close>

datatype 'a outcome = Returned 'a | Panicked

definition probe_params :: "(string \<times> string) list" where
  "probe_params =
     [(''type'', ''itv''), (''action'', ''get_all_channels''), (''gzip'', ''true''),
      (''JsHttpRequest'', ''1-xml'')]"

definition probe_link_params :: "(string \<times> string) list" where
  "probe_link_params =
     assoc_set ''cmd'' ''test_channel'' (assoc_set ''action'' ''create_link'' probe_params)"

definition set_SupportsGzip :: "'w state \<Rightarrow> 'w state" where
  "set_SupportsGzip s = s\<lparr>client := (client s)\<lparr>Config := (Config (client s))\<lparr>SupportsGzip := True\<rparr>\<rparr>\<rparr>"

definition set_RequiresCreateLink :: "'w state \<Rightarrow> 'w state" where
  "set_RequiresCreateLink s =
     s\<lparr>client := (client s)\<lparr>Config := (Config (client s))\<lparr>RequiresCreateLink := True\<rparr>\<rparr>\<rparr>"

text \<open>The two tests of a trial's result (lines 162 and 175-177).\<close>

definition gzip_trial :: "error + Response \<Rightarrow> bool" where
  "gzip_trial r =
     (case r of Inl err \<Rightarrow> False
      | Inr resp \<Rightarrow> Header_Get (Header resp) ''Content-Encoding'' = ''gzip'')"

definition link_trial :: "error + Response \<Rightarrow> bool" where
  "link_trial r =
     (case r of
        Inl err \<Rightarrow> False
      | Inr resp \<Rightarrow>
          StatusCode resp = 200 \<and>
          (case json_Decode dec_CreateLinkResponse (read_json (RespBody resp))
                  zero_CreateLinkResponse of
             Inl err \<Rightarrow> False
           | Inr response \<Rightarrow> js_cmd response \<noteq> ''''))"

definition ProbeServer :: "'w env \<Rightarrow> 'w state \<Rightarrow> error option outcome \<times> 'w state" where
  "ProbeServer E s =
     (let c = client s
      in case http_NewRequest E (apiURL c @ ''?'' @ Values_Encode probe_params) of
           Inl _ \<Rightarrow> (Panicked, s)
         | Inr req0 \<Rightarrow>
             (let req = Header_Set ''Cookie'' (cookie c) (Header_Set ''Accept-Encoding'' ''gzip'' req0);
                  (r1, s1) = client_Do E req s;
                  s2 = (if gzip_trial r1 then set_SupportsGzip s1 else s1)
              in case http_NewRequest E (apiURL c @ ''?'' @ Values_Encode probe_link_params) of
                   Inl _ \<Rightarrow> (Panicked, s2)
                 | Inr req0' \<Rightarrow>
                     (let req' = Header_Set ''Cookie'' (cookie c) req0';
                          (r2, s3) = client_Do E req' s2;
                          s4 = (if link_trial r2 then set_RequiresCreateLink s3 else s3)
                      in (Returned None, s4))))"

subsection \<open>GetChannels\<close>

definition channels_params :: "(string \<times> string) list" where
  "channels_params =
     [(''type'', ''itv''), (''action'', ''get_all_channels''), (''JsHttpRequest'', ''1-xml'')]"

text \<open>Lines 237-242: decoding the envelope from the reader that was chosen.\<close>

definition parse_channels :: "error + json \<Rightarrow> error + Channel list" where
  "parse_channels rd =
     (case json_Decode dec_ChannelListResponse rd zero_ChannelListResponse of
        Inl err \<Rightarrow> Inl (Wrapped ''failed to parse channels response'' err)
      | Inr response \<Rightarrow> Inr (elems (js_channels response)))"

text \<open>Lines 226-242: the reader is the gzip reader where the client's flag is set and
  the response says gzip, and the body itself otherwise.\<close>

definition inflated_channels :: "Response \<Rightarrow> error + Channel list" where
  "inflated_channels resp =
     (case gzip_reader (RespBody resp) of
        Inl err \<Rightarrow> Inl (Wrapped ''failed to create gzip reader'' err)
      | Inr gz \<Rightarrow> parse_channels gz)"

definition read_channels :: "StalkerClient \<Rightarrow> Response \<Rightarrow> error + Channel list" where
  "read_channels c resp =
     (if SupportsGzip (Config c) \<and> Header_Get (Header resp) ''Content-Encoding'' = ''gzip''
      then inflated_channels resp
      else parse_channels (read_json (RespBody resp)))"

definition GetChannels :: "'w env \<Rightarrow> 'w state \<Rightarrow> (error + Channel list) \<times> 'w state" where
  "GetChannels E s0 =
     (let (auth, s) = ensure_token E s0
      in case auth of
           Some err \<Rightarrow> (Inl err, s)
         | None \<Rightarrow>
             (let c = client s;
                  params = (if SupportsGzip (Config c)
                            then assoc_set ''gzip'' ''true'' channels_params else channels_params)
              in case http_NewRequest E (apiURL c @ ''?'' @ Values_Encode params) of
                   Inl err \<Rightarrow> (Inl (Wrapped ''failed to create channels request'' err), s)
                 | Inr req0 \<Rightarrow>
                     (let req1 = Header_Set ''Cookie'' (cookie c)
                                   (Header_Set ''Authorization'' (''Bearer '' @ Token c) req0);
                          req = (if SupportsGzip (Config c)
                                 then Header_Set ''Accept-Encoding'' ''gzip'' req1 else req1);
                          (r, s1) = client_Do E req s
                      in case r of
                           Inl err \<Rightarrow> (Inl (Wrapped ''channels request failed'' err), s1)
                         | Inr resp \<Rightarrow> (read_channels c resp, s1))))"

subsection \<open>GetPlaybackURL\<close>

definition create_link_params :: "string \<Rightarrow> (string \<times> string) list" where
  "create_link_params channelCmd =
     [(''type'', ''itv''), (''action'', ''create_link''), (''cmd'', channelCmd),
      (''forced_storage'', ''undefined''), (''disable_ad'', ''0''), (''JsHttpRequest'', ''1-xml'')]"

definition GetPlaybackURL :: "'w env \<Rightarrow> string \<Rightarrow> 'w state \<Rightarrow> (error + string) \<times> 'w state" where
  "GetPlaybackURL E channelCmd s0 =
     (if \<not> RequiresCreateLink (Config (client s0)) then (Inr channelCmd, s0)
      else
        (let (auth, s) = ensure_token E s0
         in case auth of
              Some err \<Rightarrow> (Inl err, s)
            | None \<Rightarrow>
                (let c = client s
                 in case http_NewRequest E
                           (apiURL c @ ''?'' @ Values_Encode (create_link_params channelCmd)) of
                      Inl err \<Rightarrow> (Inl (Wrapped ''failed to create playback URL request'' err), s)
                    | Inr req0 \<Rightarrow>
                        (let req = Header_Set ''User-Agent'' user_agent
                                     (Header_Set ''Cookie'' (cookie c)
                                        (Header_Set ''Authorization'' (''Bearer '' @ Token c) req0));
                             (r, s1) = client_Do E req s
                         in case r of
                              Inl err \<Rightarrow> (Inl (Wrapped ''playback URL request failed'' err), s1)
                            | Inr resp \<Rightarrow>
                                (case json_Decode dec_CreateLinkResponse (read_json (RespBody resp))
                                        zero_CreateLinkResponse of
                                   Inl err \<Rightarrow>
                                     (Inl (Wrapped ''failed to parse playback URL response'' err), s1)
                                 | Inr response \<Rightarrow> (Inr (js_cmd response), s1))))))"

subsection \<open>GetEPG\<close>

definition epg_params :: "string \<Rightarrow> (string \<times> string) list" where
  "epg_params channelID =
     [(''type'', ''itv''), (''action'', ''get_epg''), (''ch_id'', channelID),
      (''JsHttpRequest'', ''1-xml'')]"

text \<open>Lines 340-343: the loop over the indices of the decoded programs, each entry
  rewritten in place from its own fields.\<close>

definition adjust_entry :: "Location \<Rightarrow> EPGProgram \<Rightarrow> EPGProgram" where
  "adjust_entry l p =
     p\<lparr>Start := unixSec (time_In (time_Unix (Start p) 0) l),
       Stop := unixSec (time_In (time_Unix (Stop p) 0) l)\<rparr>"

definition adjust_timestamps :: "Location \<Rightarrow> EPGProgram list \<Rightarrow> EPGProgram list" where
  "adjust_timestamps l programs =
     fold (\<lambda>i ps. ps[i := adjust_entry l (ps ! i)]) [0 ..< length programs] programs"

text \<open>Lines 329-344: decoding, then the time zone, then the loop.\<close>

definition read_epg :: "'w env \<Rightarrow> StalkerClient \<Rightarrow> Response \<Rightarrow> error + EPGProgram list" where
  "read_epg E c resp =
     (case json_Decode dec_EPGResponse (read_json (RespBody resp)) zero_EPGResponse of
        Inl err \<Rightarrow> Inl (Wrapped ''failed to parse EPG response'' err)
      | Inr epgResp \<Rightarrow>
          (case LoadLocation E (Timezone c) of
             Inl err \<Rightarrow> Inl (Wrapped (''invalid timezone '' @ Timezone c) err)
           | Inr l \<Rightarrow> Inr (adjust_timestamps l (elems (js_programs epgResp)))))"

definition GetEPG :: "'w env \<Rightarrow> string \<Rightarrow> 'w state \<Rightarrow> (error + EPGProgram list) \<times> 'w state" where
  "GetEPG E channelID s0 =
     (let (auth, s) = ensure_token E s0
      in case auth of
           Some err \<Rightarrow> (Inl err, s)
         | None \<Rightarrow>
             (let c = client s
              in case http_NewRequest E (apiURL c @ ''?'' @ Values_Encode (epg_params channelID)) of
                   Inl err \<Rightarrow> (Inl (Wrapped ''failed to create EPG request'' err), s)
                 | Inr req0 \<Rightarrow>
                     (let req = Header_Set ''Cookie'' (cookie c)
                                  (Header_Set ''Authorization'' (''Bearer '' @ Token c) req0);
                          (r, s1) = client_Do E req s
                      in case r of
                           Inl err \<Rightarrow> (Inl (Wrapped ''EPG request failed'' err), s1)
                         | Inr resp \<Rightarrow> (read_epg E c resp, s1))))"

subsection \<open>ConvertEPGToXMLTV\<close>

definition xmltv_programme :: "Location \<Rightarrow> EPGProgram \<Rightarrow> XMLTVProgram" where
  "xmltv_programme l p =
     \<lparr>x_Start = Format_xmltv (time_In (time_Unix (Start p) 0) l),
      x_Stop = Format_xmltv (time_In (time_Unix (Stop p) 0) l),
      x_Channel = ChannelID p,
      x_Title = Name p,
      x_Desc = Desc p,
      x_Category = Category p\<rparr>"

text \<open>Lines 354-368: the document handed to the XML encoder.\<close>

definition xmltv_document :: "Location \<Rightarrow> string \<Rightarrow> EPGProgram list \<Rightarrow> XMLTV" where
  "xmltv_document l channelID programs =
     fold (\<lambda>p xmltv. xmltv\<lparr>Programs := Programs xmltv @ [xmltv_programme l p]\<rparr>) programs
       \<lparr>Channels = [\<lparr>x_ID = channelID, x_DisplayName = channelID\<rparr>], Programs = []\<rparr>"

text \<open>Lines 349-368: the time zone, then the document.\<close>

definition build_XMLTV :: "(string \<Rightarrow> error + Location) \<Rightarrow> StalkerClient \<Rightarrow> string \<Rightarrow> EPGProgram list \<Rightarrow> error + XMLTV" where
  "build_XMLTV loadLocation c channelID programs =
     (case loadLocation (Timezone c) of
        Inl err \<Rightarrow> Inl (Wrapped (''invalid timezone '' @ Timezone c) err)
      | Inr l \<Rightarrow> Inr (xmltv_document l channelID programs))"

text \<open>
  The conversion reaches no server: it takes \<open>time.LoadLocation\<close> and the encoder
  \<open>xml.MarshalIndent(_, "", "  ")\<close> only.
\<close>

definition ConvertEPGToXMLTV :: "(string \<Rightarrow> error + Location) \<Rightarrow> (XMLTV \<Rightarrow> error + string) \<Rightarrow> StalkerClient \<Rightarrow> string \<Rightarrow> EPGProgram list \<Rightarrow> error + string" where
  "ConvertEPGToXMLTV loadLocation marshalIndent c channelID programs =
     (case build_XMLTV loadLocation c channelID programs of
        Inl err \<Rightarrow> Inl err
      | Inr xmltv \<Rightarrow>
          (case marshalIndent xmltv of
             Inl err \<Rightarrow> Inl (Wrapped ''failed to marshal XMLTV'' err)
           | Inr output \<Rightarrow> Inr output))"

section \<open>Names for what the statements below speak about\<close>

text \<open>The two requests of \<open>ProbeServer\<close> and the results the transport gives for them,
  the second one sent to the server as the first one left it.\<close>

definition probe_gzip_request :: "StalkerClient \<Rightarrow> Request" where
  "probe_gzip_request c =
     Header_Set ''Cookie'' (cookie c)
       (Header_Set ''Accept-Encoding'' ''gzip''
          \<lparr>Method = ''GET'', URL = apiURL c @ ''?'' @ Values_Encode probe_params, ReqHeader = []\<rparr>)"

definition probe_link_request :: "StalkerClient \<Rightarrow> Request" where
  "probe_link_request c =
     Header_Set ''Cookie'' (cookie c)
       \<lparr>Method = ''GET'', URL = apiURL c @ ''?'' @ Values_Encode probe_link_params, ReqHeader = []\<rparr>"

definition gzip_response :: "'w env \<Rightarrow> 'w state \<Rightarrow> error + Response" where
  "gzip_response E s = fst (Do E (probe_gzip_request (client s)) (server s))"

definition link_response :: "'w env \<Rightarrow> 'w state \<Rightarrow> error + Response" where
  "link_response E s =
     fst (Do E (probe_link_request (client s))
            (snd (Do E (probe_gzip_request (client s)) (server s))))"

text \<open>The request of \<open>GetChannels\<close> for a client that holds a token.\<close>

definition channels_request :: "StalkerClient \<Rightarrow> Request" where
  "channels_request c =
     (let req1 = Header_Set ''Cookie'' (cookie c)
                   (Header_Set ''Authorization'' (''Bearer '' @ Token c)
                      \<lparr>Method = ''GET'',
                       URL = apiURL c @ ''?'' @ Values_Encode
                               (if SupportsGzip (Config c)
                                then assoc_set ''gzip'' ''true'' channels_params else channels_params),
                       ReqHeader = []\<rparr>)
      in if SupportsGzip (Config c) then Header_Set ''Accept-Encoding'' ''gzip'' req1 else req1)"

text \<open>The requests of \<open>GetEPG\<close> and of \<open>GetPlaybackURL\<close>.\<close>

definition epg_request :: "StalkerClient \<Rightarrow> string \<Rightarrow> Request" where
  "epg_request c channelID =
     Header_Set ''Cookie'' (cookie c)
       (Header_Set ''Authorization'' (''Bearer '' @ Token c)
          \<lparr>Method = ''GET'', URL = apiURL c @ ''?'' @ Values_Encode (epg_params channelID),
           ReqHeader = []\<rparr>)"

definition create_link_request :: "StalkerClient \<Rightarrow> string \<Rightarrow> Request" where
  "create_link_request c channelCmd =
     Header_Set ''User-Agent'' user_agent
       (Header_Set ''Cookie'' (cookie c)
          (Header_Set ''Authorization'' (''Bearer '' @ Token c)
             \<lparr>Method = ''GET'',
              URL = apiURL c @ ''?'' @ Values_Encode (create_link_params channelCmd),
              ReqHeader = []\<rparr>))"

text \<open>The decoded handshake envelope of a response.\<close>

definition handshake_of :: "Response \<Rightarrow> error + HandshakeResponse" where
  "handshake_of resp =
     json_Decode dec_HandshakeResponse (read_json (RespBody resp)) zero_HandshakeResponse"

definition create_link_of :: "Response \<Rightarrow> error + CreateLinkResponse" where
  "create_link_of resp =
     json_Decode dec_CreateLinkResponse (read_json (RespBody resp)) zero_CreateLinkResponse"

definition epg_of :: "Response \<Rightarrow> error + EPGResponse" where
  "epg_of resp = json_Decode dec_EPGResponse (read_json (RespBody resp)) zero_EPGResponse"

text \<open>
  A handshake body without a token, in a shape the decoder accepts: \<open>null\<close>, or an
  object in which every member that selects \<open>js\<close> is \<open>null\<close> or an object in which
  every member that selects \<open>token\<close> is \<open>null\<close>.
\<close>

definition js_lacks_token :: "json \<Rightarrow> bool" where
  "js_lacks_token v =
     (case v of
        JNull \<Rightarrow> True
      | JObject kvs \<Rightarrow> list_all (\<lambda>kv. if is_field (fst kv) ''token'' then snd kv = JNull else True) kvs
      | _ \<Rightarrow> False)"

definition lacks_token :: "json \<Rightarrow> bool" where
  "lacks_token j =
     (case j of
        JNull \<Rightarrow> True
      | JObject kvs \<Rightarrow> list_all (\<lambda>kv. if is_field (fst kv) ''js'' then js_lacks_token (snd kv) else True) kvs
      | _ \<Rightarrow> False)"

section \<open>Two entries of the time zone database\<close>

definition UTC :: Location where
  "UTC = \<lparr>loc_name = ''UTC'', zone_offset = (\<lambda>_. 0)\<rparr>"

text \<open>The offset in force at an instant: that of the last transition not after it.\<close>

fun lookup_offset :: "int \<Rightarrow> (int \<times> int) list \<Rightarrow> int \<Rightarrow> int" where
  "lookup_offset cur [] sec = cur"
| "lookup_offset cur ((when, off) # tx) sec =
     (if sec < when then cur else lookup_offset off tx sec)"

text \<open>
  America/New_York around the instants used below: Eastern Standard Time (UTC-5) until
  12 March 2023 07:00 UTC, daylight time (UTC-4) until 5 November 2023 06:00 UTC,
  standard time until 10 March 2024 07:00 UTC, daylight time until 3 November 2024
  06:00 UTC, standard time after.
\<close>

definition America_New_York :: Location where
  "America_New_York =
     \<lparr>loc_name = ''America/New_York'',
      zone_offset = lookup_offset (- 18000)
        [(1678604400, - 14400), (1699164000, - 18000), (1710054000, - 14400),
         (1730613600, - 18000)]\<rparr>"

definition tzdata :: "string \<Rightarrow> error + Location" where
  "tzdata name =
     (if name = ''UTC'' then Inr UTC
      else if name = ''America/New_York'' then Inr America_New_York
      else Inl (External (''unknown time zone '' @ name)))"

section \<open>Concrete clients, servers and responses\<close>

definition example_client :: StalkerClient where
  "example_client = NewStalkerClient ''http://example.com'' ''00:1A:79:18:05:75'' ''UTC''"

definition start_state :: "StalkerClient \<Rightarrow> unit state" where
  "start_state c = \<lparr>client = c, server = (), sent = []\<rparr>"

text \<open>A body that is the JSON text of \<open>j\<close>, and a body that is its gzip compression
  (a gzip stream starts with the bytes 1F 8B, which begin no JSON value).\<close>

definition json_body :: "json \<Rightarrow> Body" where
  "json_body j = \<lparr>read_json = Inr j, gzip_reader = Inl (External ''gzip: invalid header'')\<rparr>"


definition mk_response :: "int \<Rightarrow> string \<Rightarrow> Body \<Rightarrow> Response" where
  "mk_response status encoding body =
     \<lparr>StatusCode = status,
      Header = (\<lambda>k. if k = ''Content-Encoding'' \<and> encoding \<noteq> '''' then [encoding] else []),
      RespBody = body\<rparr>"

text \<open>A server that answers every request alike, and never changes.\<close>

definition const_env :: "error + Response \<Rightarrow> unit env" where
  "const_env r =
     \<lparr>NewRequest_error = (\<lambda>_. None), Do = (\<lambda>req w. (r, w)), LoadLocation = tzdata\<rparr>"



definition epg_json :: json where
  "epg_json =
     JObject [(''js'', JObject [(''programs'', JArray
       [JObject [(''ch_id'', JString ''7''), (''name'', JString ''News''),
                 (''start_timestamp'', JNumber ''1700000000''),
                 (''stop_timestamp'', JNumber ''1700003600'')]])])]"

definition token_json :: json where
  "token_json = JObject [(''js'', JObject [(''token'', JString ''abc123'')])]"

definition empty_js_json :: json where
  "empty_js_json = JObject [(''js'', JObject [])]"

definition js_array_json :: json where
  "js_array_json = JObject [(''js'', JArray [])]"

definition link_json :: json where
  "link_json = JObject [(''js'', JObject [(''cmd'', JString ''http://stream/test_channel'')])]"

definition refused :: "error + Response" where
  "refused = Inl (External ''connection refused'')"

text \<open>A client environment in which no request can be built.\<close>

definition no_request_env :: "unit env" where
  "no_request_env =
     \<lparr>NewRequest_error = (\<lambda>_. Some (External ''invalid URL'')), Do = (\<lambda>req w. (refused, w)),
      LoadLocation = tzdata\<rparr>"

definition flags_set :: ServerConfig where
  "flags_set = \<lparr>SupportsGzip = True, RequiresCreateLink = True\<rparr>"


definition handshake_result :: "'w env \<Rightarrow> 'w state \<Rightarrow> error + Response" where
  "handshake_result E s = fst (Do E (handshake_request (client s)) (server s))"

section \<open>The operations, case by case\<close>

lemma http_NewRequest_eq:
  "http_NewRequest E url =
     (case NewRequest_error E url of Some err \<Rightarrow> Inl err
      | None \<Rightarrow> Inr \<lparr>Method = ''GET'', URL = url, ReqHeader = []\<rparr>)"
  by (simp add: http_NewRequest_def)

lemma client_Do_eq:
  "client_Do E req s = (fst (Do E req (server s)),
      s\<lparr>server := snd (Do E req (server s)), sent := sent s @ [req]\<rparr>)"
  by (simp add: client_Do_def split: prod.split)

lemma URL_handshake_request [simp]:
  "URL (handshake_request c) = apiURL c @ ''?'' @ Values_Encode handshake_params"
  by (simp add: handshake_request_def Header_Set_def)

lemma URL_probe_gzip_request [simp]:
  "URL (probe_gzip_request c) = apiURL c @ ''?'' @ Values_Encode probe_params"
  by (simp add: probe_gzip_request_def Header_Set_def)

lemma URL_probe_link_request [simp]:
  "URL (probe_link_request c) = apiURL c @ ''?'' @ Values_Encode probe_link_params"
  by (simp add: probe_link_request_def Header_Set_def)

lemma Authenticate_eq:
  "Authenticate E s =
     (case NewRequest_error E (URL (handshake_request (client s))) of
        Some err \<Rightarrow> (Some (Wrapped ''failed to create handshake request'' err), s)
      | None \<Rightarrow>
          (let s1 = s\<lparr>server := snd (Do E (handshake_request (client s)) (server s)),
                      sent := sent s @ [handshake_request (client s)]\<rparr>
           in case handshake_result E s of
                Inl err \<Rightarrow> (Some (Wrapped ''handshake request failed'' err), s1)
              | Inr resp \<Rightarrow>
                  (case handshake_of resp of
                     Inl err \<Rightarrow> (Some (Wrapped ''failed to parse handshake response'' err), s1)
                   | Inr response \<Rightarrow>
                       (None, s1\<lparr>client := (client s)\<lparr>Token := js_token response\<rparr>\<rparr>))))"
  by (simp add: Authenticate_def http_NewRequest_eq client_Do_eq handshake_request_def
      handshake_result_def Header_Set_def handshake_of_def Let_def split: option.split sum.split)

lemma ProbeServer_fst:
  "fst (ProbeServer E s) =
     (if NewRequest_error E (URL (probe_gzip_request (client s))) = None \<and>
         NewRequest_error E (URL (probe_link_request (client s))) = None
      then Returned None else Panicked)"
  by (simp add: ProbeServer_def http_NewRequest_eq client_Do_eq Let_def split: option.split)

lemma ProbeServer_client:
  "client (snd (ProbeServer E s)) =
     (client s)\<lparr>Config :=
        \<lparr>SupportsGzip = (SupportsGzip (Config (client s)) \<or>
            (NewRequest_error E (URL (probe_gzip_request (client s))) = None \<and>
             gzip_trial (gzip_response E s))),
         RequiresCreateLink = (RequiresCreateLink (Config (client s)) \<or>
            (NewRequest_error E (URL (probe_gzip_request (client s))) = None \<and>
             NewRequest_error E (URL (probe_link_request (client s))) = None \<and>
             link_trial (link_response E s)))\<rparr>\<rparr>"
  by (simp add: ProbeServer_def http_NewRequest_eq client_Do_eq Let_def gzip_response_def
      link_response_def probe_gzip_request_def probe_link_request_def Header_Set_def
      set_SupportsGzip_def set_RequiresCreateLink_def split: option.split)

lemma ProbeServer_server:
  "(\<forall>req. snd (Do E req (server s)) = server s) \<Longrightarrow> server (snd (ProbeServer E s)) = server s"
  by (simp add: ProbeServer_def http_NewRequest_eq client_Do_eq Let_def
      set_SupportsGzip_def set_RequiresCreateLink_def split: option.split)

lemma GetEPG_eq:
  "GetEPG E channelID s =
     (case fst (ensure_token E s) of
        Some err \<Rightarrow> (Inl err, snd (ensure_token E s))
      | None \<Rightarrow>
          (let s1 = snd (ensure_token E s); req = epg_request (client s1) channelID
           in case NewRequest_error E (URL req) of
                Some err \<Rightarrow> (Inl (Wrapped ''failed to create EPG request'' err), s1)
              | None \<Rightarrow>
                  (case fst (Do E req (server s1)) of
                     Inl err \<Rightarrow> Inl (Wrapped ''EPG request failed'' err)
                   | Inr resp \<Rightarrow> read_epg E (client s1) resp,
                   s1\<lparr>server := snd (Do E req (server s1)), sent := sent s1 @ [req]\<rparr>)))"
  by (simp add: GetEPG_def http_NewRequest_eq client_Do_eq epg_request_def Header_Set_def
      Let_def split: prod.split option.split sum.split)

lemma GetChannels_eq:
  "GetChannels E s =
     (case fst (ensure_token E s) of
        Some err \<Rightarrow> (Inl err, snd (ensure_token E s))
      | None \<Rightarrow>
          (let s1 = snd (ensure_token E s); req = channels_request (client s1)
           in case NewRequest_error E (URL req) of
                Some err \<Rightarrow> (Inl (Wrapped ''failed to create channels request'' err), s1)
              | None \<Rightarrow>
                  (case fst (Do E req (server s1)) of
                     Inl err \<Rightarrow> Inl (Wrapped ''channels request failed'' err)
                   | Inr resp \<Rightarrow> read_channels (client s1) resp,
                   s1\<lparr>server := snd (Do E req (server s1)), sent := sent s1 @ [req]\<rparr>)))"
  by (simp add: GetChannels_def http_NewRequest_eq client_Do_eq channels_request_def
      Header_Set_def Let_def split: prod.split option.split sum.split)

text \<open>The client's flags play no part in the requests of \<open>ProbeServer\<close>, and its token
  none in the handshake request.\<close>

lemma probe_requests_Config [simp]:
  "probe_gzip_request (c\<lparr>Config := cfg\<rparr>) = probe_gzip_request c"
  "probe_link_request (c\<lparr>Config := cfg\<rparr>) = probe_link_request c"
  by (simp_all add: probe_gzip_request_def probe_link_request_def apiURL_def cookie_def)

lemma handshake_request_Token [simp]:
  "handshake_request (c\<lparr>Token := t\<rparr>) = handshake_request c"
  by (simp add: handshake_request_def apiURL_def cookie_def)

lemma link_trial_iff:
  "link_trial r \<longleftrightarrow>
     (\<exists>resp response. r = Inr resp \<and> StatusCode resp = 200 \<and>
        create_link_of resp = Inr response \<and> js_cmd response \<noteq> '''')"
  by (auto simp add: link_trial_def create_link_of_def split: sum.splits)

text \<open>A second probe of a server that no request changes.\<close>

lemma ProbeServer_twice:
  assumes "\<forall>req. snd (Do E req (server s)) = server s"
  shows "client (snd (ProbeServer E (snd (ProbeServer E s)))) = client (snd (ProbeServer E s))"
proof -
  let ?s' = "snd (ProbeServer E s)"
  have srv: "server ?s' = server s"
    using assms by (rule ProbeServer_server)
  have cl: "client ?s' = (client s)\<lparr>Config := Config (client ?s')\<rparr>"
    by (simp add: ProbeServer_client)
  have g: "gzip_response E ?s' = gzip_response E s"
    unfolding gzip_response_def srv by (subst cl) simp
  have k: "link_response E ?s' = link_response E s"
    unfolding link_response_def srv by (subst cl, subst (2) cl) simp
  have u1: "URL (probe_gzip_request (client ?s')) = URL (probe_gzip_request (client s))"
    by (subst cl) simp
  have u2: "URL (probe_link_request (client ?s')) = URL (probe_link_request (client s))"
    by (subst cl) simp
  show ?thesis
    apply (subst ProbeServer_client [of E ?s'])
    apply (simp only: g k u1 u2)
    apply (simp add: ProbeServer_client)
    done
qed



text \<open>The requests that the operations send.\<close>

lemma Authenticate_sent:
  "NewRequest_error E (URL (handshake_request (client s))) = None \<Longrightarrow>
   sent (snd (Authenticate E s)) = sent s @ [handshake_request (client s)]"
  by (simp add: Authenticate_eq Let_def split: sum.split)

lemma ensure_token_sent:
  "Token (client s) = '''' \<Longrightarrow> NewRequest_error E (URL (handshake_request (client s))) = None \<Longrightarrow>
   sent (snd (ensure_token E s)) = sent s @ [handshake_request (client s)]"
  by (simp add: ensure_token_def Authenticate_sent)

lemma GetChannels_sent:
  "\<exists>rest. sent (snd (GetChannels E s)) = sent (snd (ensure_token E s)) @ rest"
  by (simp add: GetChannels_eq Let_def split: option.split)

lemma GetEPG_sent:
  "\<exists>rest. sent (snd (GetEPG E channelID s)) = sent (snd (ensure_token E s)) @ rest"
  by (simp add: GetEPG_eq Let_def split: option.split)

lemma GetPlaybackURL_sent:
  "RequiresCreateLink (Config (client s)) \<Longrightarrow>
   \<exists>rest. sent (snd (GetPlaybackURL E channelCmd s)) = sent (snd (ensure_token E s)) @ rest"
  by (cases "ensure_token E s")
     (simp add: GetPlaybackURL_def http_NewRequest_eq client_Do_eq Let_def
        split: option.split sum.split)

lemma handshake_first:
  assumes "Token (client s) = ''''"
      and "NewRequest_error E (URL (handshake_request (client s))) = None"
      and "\<exists>rest. sent s' = sent (snd (ensure_token E s)) @ rest"
  shows "\<exists>rest. sent s' = sent s @ handshake_request (client s) # rest"
  using assms by (auto simp add: ensure_token_sent)

section \<open>Decoding\<close>

text \<open>A handshake body without a token leaves the value it is decoded into as it is.\<close>

lemma dec_HandshakeJs_members:
  "list_all (\<lambda>kv. if is_field (fst kv) ''token'' then snd kv = JNull else True) kvs \<Longrightarrow>
   dec_members dec_HandshakeJs kvs r = Inr r"
  by (induction kvs) (auto simp add: dec_HandshakeJs_def dec_string_def set_field_def)

lemma dec_HandshakeJs_lacks:
  "js_lacks_token v \<Longrightarrow> dec_struct ty dec_HandshakeJs v r = Inr r"
  by (cases v) (simp_all add: js_lacks_token_def dec_struct_def dec_HandshakeJs_members)

lemma dec_Handshake_members:
  "list_all (\<lambda>kv. if is_field (fst kv) ''js'' then js_lacks_token (snd kv) else True) kvs \<Longrightarrow>
   dec_members (\<lambda>k v r. if is_field k ''js'' then dec_struct ty dec_HandshakeJs v r else Inr r) kvs r
     = Inr r"
  by (induction kvs) (auto simp add: dec_HandshakeJs_lacks)

lemma dec_HandshakeResponse_lacks:
  "lacks_token j \<Longrightarrow> dec_HandshakeResponse j r = Inr r"
  by (cases j) (simp_all add: lacks_token_def dec_HandshakeResponse_def dec_struct_def
      dec_Handshake_members)

section \<open>The concrete clients, servers and responses, evaluated\<close>

lemma const_env_simps [simp]:
  "NewRequest_error (const_env r) url = None"
  "Do (const_env r) req w = (r, w)"
  "LoadLocation (const_env r) = tzdata"
  "gzip_response (const_env r) s = r"
  "link_response (const_env r) s = r"
  "handshake_result (const_env r) s = r"
  by (simp_all add: const_env_def gzip_response_def link_response_def handshake_result_def)

lemma start_state_simps [simp]:
  "client (start_state c) = c" "sent (start_state c) = []"
  by (simp_all add: start_state_def)

lemma example_client_simps [simp]:
  "Token example_client = ''''" "Timezone example_client = ''UTC''"
  "Config example_client = \<lparr>SupportsGzip = False, RequiresCreateLink = False\<rparr>"
  by (simp_all add: example_client_def NewStalkerClient_def)

lemma trials_positive:
  "gzip_trial (Inr (mk_response 200 ''gzip'' (json_body link_json)))"
  "link_trial (Inr (mk_response 200 ''gzip'' (json_body link_json)))"
  by code_simp+

lemma trials_negative:
  "\<not> gzip_trial (Inr (mk_response 200 '''' (json_body (JObject []))))"
  "\<not> link_trial (Inr (mk_response 200 '''' (json_body (JObject []))))"
  by code_simp+

lemma token_json_decodes:
  "handshake_of (mk_response 200 '''' (json_body token_json)) = Inr \<lparr>js_token = ''abc123''\<rparr>"
  by code_simp

lemma js_array_json_decodes:
  "handshake_of (mk_response 200 '''' (json_body js_array_json))
     = Inl (UnmarshalTypeError ''array'' ''HandshakeResponse.Js'')"
  by code_simp

lemma lacks_token_examples: "lacks_token (JObject [])" "lacks_token empty_js_json"
  by code_simp+

lemma epg_json_decodes:
  "epg_of (mk_response 200 '''' (json_body epg_json)) =
     Inr \<lparr>js_programs = \<lparr>elems = [\<lparr>ChannelID = ''7'', Name = ''News'', Start = 1700000000,
       Stop = 1700003600, Desc = '''', Category = ''''\<rparr>], spare = []\<rparr>\<rparr>"
  by code_simp



section \<open>Time\<close>

lemma unixSec_roundtrip: "unixSec (time_In (time_Unix sec 0) l) = sec"
  by (simp add: unixSec_def time_In_def time_Unix_def stripMono_def time_sec_def
      internalToUnix_def hasMonotonic_def)

lemma adjust_entry_id: "adjust_entry l p = p"
  by (simp add: adjust_entry_def unixSec_roundtrip)

lemma fold_keep: "fold (\<lambda>i ps. ps) ns ps = ps"
  by (induction ns) simp_all

lemma adjust_timestamps_id: "adjust_timestamps l programs = programs"
  by (simp add: adjust_timestamps_def adjust_entry_id fold_keep)



section \<open>The interchange document\<close>





text \<open>What \<open>ConvertEPGToXMLTV\<close> returns is the encoding of the document it built.\<close>

lemma ConvertEPGToXMLTV_output:
  "ConvertEPGToXMLTV loadLocation marshalIndent c channelID programs = Inr output \<Longrightarrow>
   \<exists>doc. build_XMLTV loadLocation c channelID programs = Inr doc \<and> marshalIndent doc = Inr output"
  by (auto simp add: ConvertEPGToXMLTV_def split: sum.splits)

section \<open>The claims\<close>

subsection \<open>C1: a playback command is returned as it is when no indirection is required\<close>

text \<open>
  Claim C1. For a client whose \<open>RequiresCreateLink\<close> flag is false, \<open>GetPlaybackURL\<close>
  returns the command unchanged and no error, whatever the environment: the state after
  the call is the state before it, so no request was sent, the server was not reached,
  and the client (token and flags included) is as it was. This holds for every command
  string, the non-empty ones of the claim among them.
\<close>

theorem GetPlaybackURL_direct:
  "\<not> RequiresCreateLink (Config (client s)) \<Longrightarrow> GetPlaybackURL E channelCmd s = (Inr channelCmd, s)"
  by (simp add: GetPlaybackURL_def)

theorem GetPlaybackURL_direct_witness:
  "GetPlaybackURL (const_env (Inl (External ''connection refused''))) ''http://stream/1''
     (start_state example_client) = (Inr ''http://stream/1'', start_state example_client)"
  using GetPlaybackURL_direct [of "start_state example_client"
      "const_env (Inl (External ''connection refused''))" "''http://stream/1''"]
  by (simp add: start_state_def example_client_def NewStalkerClient_def)

subsection \<open>C2: the start stamp of the entry that starts at 1700000000\<close>




subsection \<open>C3: the timestamp adjustment of GetEPG changes nothing\<close>

text \<open>
  Claim C3. Where the client holds or obtains a token, the request is built, the server
  answers, the answer decodes as an EPG envelope and the configured time zone resolves,
  \<open>GetEPG\<close> returns exactly the decoded programs: the loop that rewrites \<open>Start\<close> and
  \<open>Stop\<close> through \<open>time.Unix(_, 0).In(loc).Unix()\<close> is the identity on every list, in
  every location, for every 64-bit value.
\<close>

theorem GetEPG_adjustment_is_identity:
  assumes "ensure_token E s = (None, s1)"
      and "NewRequest_error E (URL (epg_request (client s1) channelID)) = None"
      and "fst (Do E (epg_request (client s1) channelID) (server s1)) = Inr resp"
      and "epg_of resp = Inr epgResp"
      and "LoadLocation E (Timezone (client s1)) = Inr l"
  shows "fst (GetEPG E channelID s) = Inr (elems (js_programs epgResp))
       \<and> adjust_timestamps l (elems (js_programs epgResp)) = elems (js_programs epgResp)"
  using assms
  by (simp add: GetEPG_eq read_epg_def epg_of_def adjust_timestamps_id Let_def)

theorem GetEPG_adjustment_is_identity_witness:
  "fst (GetEPG (const_env (Inr (mk_response 200 '''' (json_body epg_json)))) ''7''
          (start_state (example_client\<lparr>Token := ''tok''\<rparr>)))
     = Inr [\<lparr>ChannelID = ''7'', Name = ''News'', Start = 1700000000, Stop = 1700003600,
             Desc = '''', Category = ''''\<rparr>]"
  using GetEPG_adjustment_is_identity
    [of "const_env (Inr (mk_response 200 '''' (json_body epg_json)))"
        "start_state (example_client\<lparr>Token := ''tok''\<rparr>)"
        "start_state (example_client\<lparr>Token := ''tok''\<rparr>)" "''7''"
        "mk_response 200 '''' (json_body epg_json)"
        "\<lparr>js_programs = \<lparr>elems = [\<lparr>ChannelID = ''7'', Name = ''News'', Start = 1700000000,
           Stop = 1700003600, Desc = '''', Category = ''''\<rparr>], spare = []\<rparr>\<rparr>"
        UTC]
  by (simp add: epg_json_decodes ensure_token_def const_env_def start_state_def
      example_client_def NewStalkerClient_def tzdata_def)

subsection \<open>C4: what a probe does to the flags it finds\<close>

text \<open>
  Claim C4, as amended. \<open>ProbeServer\<close> only ever sets a flag: after a call that returns,
  \<open>SupportsGzip\<close> holds exactly if it held before or this call's gzip trial succeeded,
  and \<open>RequiresCreateLink\<close> holds exactly if it held before or this call's indirection
  trial succeeded. A flag found false therefore ends as its trial says, and a flag found
  true stays true. Against a server that no request changes, a second call leaves the
  client as the first call left it.
\<close>

theorem ProbeServer_accumulates:
  "(fst (ProbeServer E s) = Returned None \<longrightarrow>
      Config (client (snd (ProbeServer E s))) =
        \<lparr>SupportsGzip = (SupportsGzip (Config (client s)) \<or> gzip_trial (gzip_response E s)),
         RequiresCreateLink =
           (RequiresCreateLink (Config (client s)) \<or> link_trial (link_response E s))\<rparr>)
   \<and> ((\<forall>req. snd (Do E req (server s)) = server s) \<longrightarrow>
        client (snd (ProbeServer E (snd (ProbeServer E s)))) = client (snd (ProbeServer E s)))"
proof (intro conjI impI)
  assume "fst (ProbeServer E s) = Returned None"
  then show "Config (client (snd (ProbeServer E s))) =
        \<lparr>SupportsGzip = (SupportsGzip (Config (client s)) \<or> gzip_trial (gzip_response E s)),
         RequiresCreateLink =
           (RequiresCreateLink (Config (client s)) \<or> link_trial (link_response E s))\<rparr>"
    by (simp add: ProbeServer_client ProbeServer_fst split: if_splits)
next
  assume "\<forall>req. snd (Do E req (server s)) = server s"
  then show "client (snd (ProbeServer E (snd (ProbeServer E s)))) = client (snd (ProbeServer E s))"
    by (rule ProbeServer_twice)
qed

theorem ProbeServer_accumulates_witness:
  "Config (client (snd (ProbeServer (const_env (Inr (mk_response 200 ''gzip'' (json_body link_json))))
       (start_state example_client)))) = \<lparr>SupportsGzip = True, RequiresCreateLink = True\<rparr>
   \<and> client (snd (ProbeServer (const_env (Inr (mk_response 200 ''gzip'' (json_body link_json))))
        (snd (ProbeServer (const_env (Inr (mk_response 200 ''gzip'' (json_body link_json))))
           (start_state example_client)))))
     = client (snd (ProbeServer (const_env (Inr (mk_response 200 ''gzip'' (json_body link_json))))
         (start_state example_client)))"
  using ProbeServer_accumulates
    [of "const_env (Inr (mk_response 200 ''gzip'' (json_body link_json)))"
        "start_state example_client"]
  by (simp add: ProbeServer_fst trials_positive)

text \<open>
  The flags are not derived from scratch. A client with both flags set probes a server
  that answers with an uncompressed, empty envelope: both trials fail, and both flags
  are still set after the call.
\<close>

theorem ProbeServer_rederives_counterexample:
  "fst (ProbeServer (const_env (Inr (mk_response 200 '''' (json_body (JObject [])))))
          (start_state (example_client\<lparr>Config := flags_set\<rparr>))) = Returned None
   \<and> gzip_trial (gzip_response (const_env (Inr (mk_response 200 '''' (json_body (JObject [])))))
          (start_state (example_client\<lparr>Config := flags_set\<rparr>))) = False
   \<and> link_trial (link_response (const_env (Inr (mk_response 200 '''' (json_body (JObject [])))))
          (start_state (example_client\<lparr>Config := flags_set\<rparr>))) = False
   \<and> Config (client (snd (ProbeServer (const_env (Inr (mk_response 200 '''' (json_body (JObject [])))))
          (start_state (example_client\<lparr>Config := flags_set\<rparr>)))))
       = \<lparr>SupportsGzip = True, RequiresCreateLink = True\<rparr>"
  by (simp add: ProbeServer_fst ProbeServer_client trials_negative flags_set_def)

subsection \<open>C5: when GetChannels inflates the body\<close>




subsection \<open>C6: the indirection trial\<close>

text \<open>
  Claim C6. After a call of \<open>ProbeServer\<close> that returns, \<open>RequiresCreateLink\<close> has been
  set to true if the answer to the \<open>create_link\<close> request for \<open>test_channel\<close> has status
  200 and decodes to an envelope with a non-empty \<open>js.cmd\<close>; after any other outcome of
  that request (a transport error, another status, a body that does not decode, an empty
  \<open>cmd\<close>) the flag is what it was before the call.
\<close>

theorem ProbeServer_link_trial:
  "fst (ProbeServer E s) = Returned None \<Longrightarrow>
   RequiresCreateLink (Config (client (snd (ProbeServer E s)))) =
     (if (\<exists>resp response. link_response E s = Inr resp \<and> StatusCode resp = 200 \<and>
            create_link_of resp = Inr response \<and> js_cmd response \<noteq> '''')
      then True else RequiresCreateLink (Config (client s)))"
proof -
  assume "fst (ProbeServer E s) = Returned None"
  then have "RequiresCreateLink (Config (client (snd (ProbeServer E s)))) =
     (RequiresCreateLink (Config (client s)) \<or> link_trial (link_response E s))"
    by (simp add: ProbeServer_client ProbeServer_fst split: if_splits)
  then show ?thesis
    unfolding link_trial_iff [symmetric] by simp
qed

theorem ProbeServer_link_trial_witness:
  "RequiresCreateLink (Config (client (snd (ProbeServer
      (const_env (Inr (mk_response 200 ''gzip'' (json_body link_json))))
      (start_state example_client)))))"
  using ProbeServer_link_trial
    [of "const_env (Inr (mk_response 200 ''gzip'' (json_body link_json)))"
        "start_state example_client"]
    trials_positive(2)
  by (simp add: ProbeServer_fst link_trial_iff)

subsection \<open>C7: a probe reports no failure\<close>

text \<open>
  Claim C7. \<open>ProbeServer\<close> never returns an error. Where its two requests can be built
  it returns nil, whatever the transport and the server do: every combination of
  transport errors and of responses, well-formed or not. A transport error on the gzip
  trial leaves \<open>SupportsGzip\<close> as it was. (Where a request cannot be built, because
  the portal URL does not parse, the call panics on the nil request and returns nothing.)
\<close>

theorem ProbeServer_swallows_failures:
  "(\<forall>err. fst (ProbeServer E s) \<noteq> Returned (Some err))
   \<and> (NewRequest_error E (URL (probe_gzip_request (client s))) = None \<and>
      NewRequest_error E (URL (probe_link_request (client s))) = None \<longrightarrow>
        fst (ProbeServer E s) = Returned None)
   \<and> ((\<exists>err. gzip_response E s = Inl err) \<longrightarrow>
        SupportsGzip (Config (client (snd (ProbeServer E s)))) = SupportsGzip (Config (client s)))"
  by (auto simp add: ProbeServer_client ProbeServer_fst gzip_trial_def)

theorem ProbeServer_swallows_failures_witness:
  "fst (ProbeServer (const_env refused) (start_state example_client)) = Returned None
   \<and> SupportsGzip (Config (client (snd (ProbeServer (const_env refused)
        (start_state example_client))))) = False"
  using ProbeServer_swallows_failures [of "const_env refused" "start_state example_client"]
  by (simp add: refused_def)

text \<open>The branch in which no request can be built: the call panics.\<close>

lemma ProbeServer_panics_without_request:
  "fst (ProbeServer no_request_env (start_state example_client)) = Panicked"
  by (simp add: ProbeServer_fst no_request_env_def)

subsection \<open>C8: what Authenticate writes\<close>

text \<open>
  Claim C8. Where the handshake response decodes, \<open>Authenticate\<close> returns no error and
  the client afterwards is the client before with \<open>Token\<close> set to the decoded
  \<open>js.token\<close>: portal URL, MAC, time zone and both flags are as they were. Where the
  request cannot be built, the transport fails or the body does not decode, it returns
  the error and the client, token included, is unchanged.
\<close>

theorem Authenticate_frame:
  "(\<forall>err. NewRequest_error E (URL (handshake_request (client s))) = Some err \<longrightarrow>
        Authenticate E s = (Some (Wrapped ''failed to create handshake request'' err), s))
   \<and> (NewRequest_error E (URL (handshake_request (client s))) = None \<longrightarrow>
       (\<forall>resp response. handshake_result E s = Inr resp \<and> handshake_of resp = Inr response \<longrightarrow>
           fst (Authenticate E s) = None \<and>
           client (snd (Authenticate E s)) = (client s)\<lparr>Token := js_token response\<rparr>)
     \<and> (\<forall>err. handshake_result E s = Inl err \<longrightarrow>
           fst (Authenticate E s) = Some (Wrapped ''handshake request failed'' err) \<and>
           client (snd (Authenticate E s)) = client s)
     \<and> (\<forall>resp err. handshake_result E s = Inr resp \<and> handshake_of resp = Inl err \<longrightarrow>
           fst (Authenticate E s) = Some (Wrapped ''failed to parse handshake response'' err) \<and>
           client (snd (Authenticate E s)) = client s))"
  by (simp add: Authenticate_eq Let_def)

theorem Authenticate_frame_witness:
  "fst (Authenticate (const_env (Inr (mk_response 200 '''' (json_body token_json))))
          (start_state example_client)) = None
   \<and> client (snd (Authenticate (const_env (Inr (mk_response 200 '''' (json_body token_json))))
          (start_state example_client))) = example_client\<lparr>Token := ''abc123''\<rparr>
   \<and> fst (Authenticate (const_env refused) (start_state example_client))
       = Some (Wrapped ''handshake request failed'' (External ''connection refused''))
   \<and> client (snd (Authenticate (const_env refused) (start_state example_client))) = example_client
   \<and> fst (Authenticate (const_env (Inr (mk_response 200 '''' (json_body js_array_json))))
          (start_state example_client))
       = Some (Wrapped ''failed to parse handshake response''
                 (UnmarshalTypeError ''array'' ''HandshakeResponse.Js''))
   \<and> client (snd (Authenticate (const_env (Inr (mk_response 200 '''' (json_body js_array_json))))
          (start_state example_client))) = example_client
   \<and> Authenticate no_request_env (start_state example_client)
       = (Some (Wrapped ''failed to create handshake request'' (External ''invalid URL'')),
          start_state example_client)"
  using Authenticate_frame [of "const_env (Inr (mk_response 200 '''' (json_body token_json)))"
      "start_state example_client"]
    Authenticate_frame [of "const_env refused" "start_state example_client"]
    Authenticate_frame [of "const_env (Inr (mk_response 200 '''' (json_body js_array_json)))"
      "start_state example_client"]
    Authenticate_frame [of no_request_env "start_state example_client"]
  by (simp add: token_json_decodes js_array_json_decodes refused_def no_request_env_def)

subsection \<open>C9: a handshake envelope without a token\<close>

text \<open>
  Claim C9, as amended. Where the handshake body is \<open>null\<close>, or a JSON object in which
  \<open>js\<close> is absent, \<open>null\<close>, or an object in which \<open>token\<close> is absent or \<open>null\<close> (as in
  \<open>{}\<close> and \<open>{"js":{}}\<close>), \<open>Authenticate\<close> returns no error and sets \<open>Token\<close> to the
  empty string. The next \<open>GetChannels\<close>, \<open>GetEPG\<close>, or \<open>GetPlaybackURL\<close> of a client that
  requires indirection then finds the token empty, and the first request it sends is
  the handshake again.
\<close>

theorem Authenticate_without_token:
  assumes "NewRequest_error E (URL (handshake_request (client s))) = None"
      and "handshake_result E s = Inr resp"
      and "read_json (RespBody resp) = Inr j"
      and "lacks_token j"
  shows "fst (Authenticate E s) = None
       \<and> Token (client (snd (Authenticate E s))) = ''''
       \<and> (\<exists>rest. sent (snd (GetChannels E (snd (Authenticate E s))))
             = sent (snd (Authenticate E s))
               @ handshake_request (client (snd (Authenticate E s))) # rest)
       \<and> (\<exists>rest. sent (snd (GetEPG E channelID (snd (Authenticate E s))))
             = sent (snd (Authenticate E s))
               @ handshake_request (client (snd (Authenticate E s))) # rest)
       \<and> (RequiresCreateLink (Config (client (snd (Authenticate E s)))) \<longrightarrow>
            (\<exists>rest. sent (snd (GetPlaybackURL E channelCmd (snd (Authenticate E s))))
               = sent (snd (Authenticate E s))
                 @ handshake_request (client (snd (Authenticate E s))) # rest))"
proof -
  let ?s' = "snd (Authenticate E s)"
  have dec: "handshake_of resp = Inr zero_HandshakeResponse"
    using assms(3,4) by (simp add: handshake_of_def json_Decode_def dec_HandshakeResponse_lacks)
  have res: "fst (Authenticate E s) = None"
    and cl: "client ?s' = (client s)\<lparr>Token := ''''\<rparr>"
    using assms(1,2) dec by (simp_all add: Authenticate_eq Let_def zero_HandshakeResponse_def)
  have tok: "Token (client ?s') = ''''"
    by (simp add: cl)
  have ok: "NewRequest_error E (URL (handshake_request (client ?s'))) = None"
    using assms(1) by (simp add: cl apiURL_def)
  note first = handshake_first [OF tok ok]
  show ?thesis
    using res tok first [OF GetChannels_sent] first [OF GetEPG_sent]
      first [OF GetPlaybackURL_sent]
    by blast
qed

theorem Authenticate_without_token_witness:
  "fst (Authenticate (const_env (Inr (mk_response 200 '''' (json_body empty_js_json))))
          (start_state (example_client\<lparr>Token := ''old''\<rparr>))) = None
   \<and> Token (client (snd (Authenticate (const_env (Inr (mk_response 200 '''' (json_body empty_js_json))))
          (start_state (example_client\<lparr>Token := ''old''\<rparr>))))) = ''''
   \<and> (\<exists>rest. sent (snd (GetChannels (const_env (Inr (mk_response 200 '''' (json_body empty_js_json))))
          (snd (Authenticate (const_env (Inr (mk_response 200 '''' (json_body empty_js_json))))
             (start_state (example_client\<lparr>Token := ''old''\<rparr>))))))
        = sent (snd (Authenticate (const_env (Inr (mk_response 200 '''' (json_body empty_js_json))))
             (start_state (example_client\<lparr>Token := ''old''\<rparr>))))
          @ handshake_request (client (snd (Authenticate
               (const_env (Inr (mk_response 200 '''' (json_body empty_js_json))))
               (start_state (example_client\<lparr>Token := ''old''\<rparr>))))) # rest)"
proof -
  have built: "NewRequest_error (const_env (Inr (mk_response 200 '''' (json_body empty_js_json))))
          (URL (handshake_request (client (start_state (example_client\<lparr>Token := ''old''\<rparr>)))))
        = None"
    by simp
  have answered: "handshake_result (const_env (Inr (mk_response 200 '''' (json_body empty_js_json))))
          (start_state (example_client\<lparr>Token := ''old''\<rparr>))
        = Inr (mk_response 200 '''' (json_body empty_js_json))"
    by simp
  have body: "read_json (RespBody (mk_response 200 '''' (json_body empty_js_json)))
        = Inr empty_js_json"
    by (simp add: mk_response_def json_body_def)
  show ?thesis
    using Authenticate_without_token
      [OF built answered body lacks_token_examples(2), of "''7''" "''cmd''"]
    by blast
qed

text \<open>
  Not every valid JSON body without \<open>js.token\<close> is accepted. The body \<open>{"js":[]}\<close> is
  a decode error: \<open>Authenticate\<close> returns it, and the token is what it was.
\<close>

theorem Authenticate_js_array_counterexample:
  "fst (Authenticate (const_env (Inr (mk_response 200 '''' (json_body js_array_json))))
          (start_state (example_client\<lparr>Token := ''old''\<rparr>)))
     = Some (Wrapped ''failed to parse handshake response''
               (UnmarshalTypeError ''array'' ''HandshakeResponse.Js''))
   \<and> Token (client (snd (Authenticate (const_env (Inr (mk_response 200 '''' (json_body js_array_json))))
          (start_state (example_client\<lparr>Token := ''old''\<rparr>))))) = ''old''"
  by (simp add: Authenticate_eq js_array_json_decodes Let_def)

subsection \<open>C10: the channel of a programme element\<close>



end
